theory Spec2Isabelle
  imports Main "HOL-Library.Sublist"
begin

section \<open>Data model\<close>

text \<open>
  The repository holds several revisions of one WebSocket chat relay. Two of them are
  embedded here: \<^verbatim>\<open>src/server.js\<close> (team access through \<^verbatim>\<open>auth-request\<close>, constants
  without suffix) and \<^verbatim>\<open>src/unnamed/part_002\<close> (team access through \<^verbatim>\<open>join-team\<close> with an
  author key, constants with the suffix \<open>_v2\<close>).

  A WebSocket object is a connection number. A JavaScript \<^verbatim>\<open>Set\<close> of sockets iterates in
  insertion order and is a duplicate-free list. Objects used as dictionaries and
  \<^verbatim>\<open>Map\<close>s are partial maps from strings. A request field is a string or absent, as in
  the message shapes of the wire format: an absent field (\<^verbatim>\<open>undefined\<close>) is \<open>None\<close>, and so
  is the value \<^verbatim>\<open>null\<close> of a session field. Other JSON values in a field are outside the
  model. \<^verbatim>\<open>teamCodes\<close> and \<^verbatim>\<open>messageHistory\<close> are plain objects: a read \<^verbatim>\<open>obj[k]\<close> finds an own
  property, or a value inherited from \<^verbatim>\<open>Object.prototype\<close> (\<open>readProp\<close> below), or nothing.
  \<^verbatim>\<open>teamChannels\<close> and \<^verbatim>\<open>users\<close> are \<^verbatim>\<open>Map\<close>s and inherit nothing.
  The clock is an input of every event: \<open>now\<close> is \<^verbatim>\<open>Date.now()\<close> and \<open>ts\<close> is the string
  that \<^verbatim>\<open>getCurrentTime()\<close> renders. The second component of a handler's result lists its
  calls of \<^verbatim>\<open>send\<close>, in order, each with the socket it is called on.
\<close>

type_synonym conn = nat

datatype readyState = CONNECTING | OPEN | CLOSING | CLOSED

record user =
  username :: "string option"
  teamCode :: "string option"
  joined :: bool

text \<open>
  A stored record: the chat object \<^verbatim>\<open>{type:'chat-message', username, text, timestamp,
  channel, _rawTime}\<close> or the system object \<^verbatim>\<open>{type:'system-message', text, timestamp,
  _rawTime}\<close>.
\<close>

datatype msg =
    ChatRecord "string option" string string "string option" int
  | SystemRecord string string int

fun rawTime :: "msg \<Rightarrow> int" where
  "rawTime (ChatRecord u t ts ch n) = n"
| "rawTime (SystemRecord t ts n) = n"

fun isChat :: "msg \<Rightarrow> bool" where
  "isChat (ChatRecord u t ts ch n) = True"
| "isChat (SystemRecord t ts n) = False"

fun channelOf :: "msg \<Rightarrow> string option" where
  "channelOf (ChatRecord u t ts ch n) = ch"
| "channelOf (SystemRecord t ts n) = None"

text \<open>
  What a socket is sent: a stored record as it is (\<open>Relay\<close>), a private system message
  (text, timestamp), an \<^verbatim>\<open>auth-response\<close> (success, code, timestamp) or a
  \<^verbatim>\<open>chat-history\<close>.
\<close>

datatype frame =
    Relay msg
  | SystemMessage string string
  | AuthResponse bool "string option" string
  | ChatHistory "msg list"

type_synonym out = "(conn \<times> frame) list"

datatype error = TypeError

record state =
  users :: "conn \<rightharpoonup> user"
  teamChannels :: "string \<rightharpoonup> conn list"
  messageHistory :: "string \<rightharpoonup> msg list"
  clients :: "conn list"
  readyState :: "conn \<Rightarrow> readyState"
  nextConn :: conn

text \<open>The parsed request of \<^verbatim>\<open>src/server.js\<close>; \<open>Malformed\<close> is a frame on which
  \<^verbatim>\<open>JSON.parse\<close> or the read of \<^verbatim>\<open>data.type\<close> throws, \<open>Unknown\<close> any other type.\<close>

datatype request =
    Malformed
  | UserJoin "string option"
  | AuthRequest "string option"
  | JoinTeam "string option"
  | ChatMessage string "string option"
  | GetHistory "string option"
  | Unknown

text \<open>The parsed request of \<^verbatim>\<open>src/unnamed/part_002\<close>: \<^verbatim>\<open>join-team\<close> carries
  \<^verbatim>\<open>teamCode\<close> and \<^verbatim>\<open>authorKey\<close>.\<close>

datatype request_v2 =
    Malformed_v2
  | UserJoin_v2 "string option"
  | JoinTeam_v2 "string option" "string option"
  | ChatMessage_v2 string "string option"
  | GetHistory_v2 "string option"
  | Unknown_v2

text \<open>Events of the transport and of the timer. A new socket gets the next connection
  number, so no number is ever used for two sockets.\<close>

datatype 'r event =
    Connection
  | Message conn 'r
  | Closing conn
  | Close conn
  | Cleanup

section \<open>JavaScript values\<close>

definition orDefault :: "string option \<Rightarrow> string \<Rightarrow> string" where
  \<comment> \<open>\<^verbatim>\<open>v || d\<close> for a string or absent \<open>v\<close>: the empty string is falsy.\<close>
  "orDefault v d = (case v of None \<Rightarrow> d | Some x \<Rightarrow> if x = [] then d else x)"

definition truthy :: "string option \<Rightarrow> bool" where
  "truthy v = (case v of None \<Rightarrow> False | Some x \<Rightarrow> x \<noteq> [])"

definition key :: "string option \<Rightarrow> string" where
  \<comment> \<open>The property key of a string or absent value: \<^verbatim>\<open>obj[undefined]\<close> reads \<^verbatim>\<open>"undefined"\<close>.\<close>
  "key v = (case v of None \<Rightarrow> ''undefined'' | Some x \<Rightarrow> x)"

definition str :: "string option \<Rightarrow> string" where
  \<comment> \<open>A string or \<^verbatim>\<open>null\<close> inside a template literal.\<close>
  "str v = (case v of None \<Rightarrow> ''null'' | Some x \<Rightarrow> x)"

definition strictEq :: "string option \<Rightarrow> string option \<Rightarrow> bool" where
  \<comment> \<open>\<^verbatim>\<open>user.teamCode === code\<close>: \<^verbatim>\<open>null\<close> on the left never equals \<^verbatim>\<open>undefined\<close> on the right.\<close>
  "strictEq a b = (case a of None \<Rightarrow> False | Some x \<Rightarrow> b = Some x)"

definition setAdd :: "conn \<Rightarrow> conn list \<Rightarrow> conn list" where
  "setAdd c cs = (if c \<in> set cs then cs else cs @ [c])"

definition history :: "state \<Rightarrow> string \<Rightarrow> msg list" where
  \<comment> \<open>the records that \<^verbatim>\<open>messageHistory[channel] || []\<close> holds: those of the own array, or
      none (an inherited value holds no record)\<close>
  "history s ch = (case messageHistory s ch of None \<Rightarrow> [] | Some h \<Rightarrow> h)"

definition sendAll :: "state \<Rightarrow> conn list \<Rightarrow> msg \<Rightarrow> out" where
  \<comment> \<open>\<^verbatim>\<open>forEach(client => { if (client.readyState === WebSocket.OPEN) client.send(...) })\<close>\<close>
  "sendAll s cs m = map (\<lambda>c. (c, Relay m)) (filter (\<lambda>c. readyState s c = OPEN) cs)"

definition isJoined :: "state \<Rightarrow> conn \<Rightarrow> bool" where
  \<comment> \<open>\<^verbatim>\<open>users.get(ws)?.joined\<close>\<close>
  "isJoined s ws = (case users s ws of None \<Rightarrow> False | Some u \<Rightarrow> joined u)"

text \<open>
  A read \<^verbatim>\<open>obj[k]\<close> of a plain object whose own properties are the map \<open>obj\<close>. The twelve
  names below are the properties of \<^verbatim>\<open>Object.prototype\<close>: eleven functions and, under
  \<^verbatim>\<open>__proto__\<close>, the prototype object itself. All of them are truthy, none is an array, and none
  has a property \<^verbatim>\<open>push\<close>, \<^verbatim>\<open>code\<close> or \<^verbatim>\<open>authorKey\<close>.
\<close>

datatype 'a property = Missing | Own 'a | Inherited

definition inherited :: "string \<Rightarrow> bool" where
  "inherited k = (k \<in> set [''constructor'', ''__proto__'', ''hasOwnProperty'', ''isPrototypeOf'',
     ''propertyIsEnumerable'', ''toLocaleString'', ''toString'', ''valueOf'',
     ''__defineGetter__'', ''__defineSetter__'', ''__lookupGetter__'', ''__lookupSetter__''])"

definition readProp :: "(string \<rightharpoonup> 'a) \<Rightarrow> string \<Rightarrow> 'a property" where
  "readProp obj k = (case obj k of Some v \<Rightarrow> Own v
                 | None \<Rightarrow> if inherited k then Inherited else Missing)"

definition nativeText :: "string \<Rightarrow> string" where
  \<comment> \<open>an inherited value inside a template literal\<close>
  "nativeText k = (if k = ''__proto__'' then ''[object Object]''
                   else ''function '' @ (if k = ''constructor'' then ''Object'' else k)
                        @ ''() { [native code] }'')"

section \<open>src/server.js\<close>

definition teamCodes :: "string \<rightharpoonup> string" where
  \<comment> \<open>lines 10-13: the own properties of the object; it is read through \<open>readProp\<close>\<close>
  "teamCodes = map_of [(''[REKT]'', ''REKT''), (''[SMT]'', ''SMT'')]"

definition accepted :: "string option \<Rightarrow> bool" where
  \<comment> \<open>line 93: \<^verbatim>\<open>teamCodes[code]\<close> is truthy\<close>
  "accepted cd = (case readProp teamCodes (key cd) of
                    Missing \<Rightarrow> False | Own n \<Rightarrow> n \<noteq> [] | Inherited \<Rightarrow> True)"

definition teamName :: "string option \<Rightarrow> string" where
  \<comment> \<open>line 114: \<^verbatim>\<open>${teamCodes[code]}\<close>\<close>
  "teamName cd = (case readProp teamCodes (key cd) of
                    Missing \<Rightarrow> ''undefined'' | Own n \<Rightarrow> n | Inherited \<Rightarrow> nativeText (key cd))"

definition MAX_HISTORY :: nat where
  "MAX_HISTORY = 100"

definition MSG_LIFETIME_MS :: int where
  "MSG_LIFETIME_MS = 30 * 60 * 1000"

definition init :: state where
  "init = \<lparr>users = Map.empty, teamChannels = Map.empty,
     messageHistory = [''global'' \<mapsto> [], ''[REKT]'' \<mapsto> [], ''[SMT]'' \<mapsto> []],
     clients = [], readyState = (\<lambda>c. CONNECTING), nextConn = 0\<rparr>"

definition cleanup :: "int \<Rightarrow> state \<Rightarrow> state" where
  \<comment> \<open>lines 27-32: the timer's job\<close>
  "cleanup now s = s\<lparr>messageHistory :=
     (\<lambda>channel. map_option (filter (\<lambda>m. now - rawTime m < MSG_LIFETIME_MS))
        (messageHistory s channel))\<rparr>"

definition pushHistory :: "string \<Rightarrow> msg \<Rightarrow> state \<Rightarrow> state" where
  \<comment> \<open>lines 134-140 and 176-182 where \<^verbatim>\<open>messageHistory[channel]\<close> is an own array or nothing:
      create the buffer if absent, push, shift once if over\<close>
  "pushHistory channel m s =
     (let h = history s channel @ [m]
      in s\<lparr>messageHistory := (messageHistory s)
            (channel \<mapsto> (if length h > MAX_HISTORY then tl h else h))\<rparr>)"

definition storeRecord :: "string \<Rightarrow> msg \<Rightarrow> state \<Rightarrow> error + state" where
  \<comment> \<open>lines 134-140 and 176-182: an inherited value is truthy, so no buffer is created, and
      \<^verbatim>\<open>.push\<close> on it throws before anything is stored\<close>
  "storeRecord channel m s =
     (case readProp (messageHistory s) channel of
        Inherited \<Rightarrow> Inl TypeError
      | Own h \<Rightarrow> Inr (pushHistory channel m s)
      | Missing \<Rightarrow> Inr (pushHistory channel m s))"

definition broadcastMessage :: "state \<Rightarrow> msg \<Rightarrow> out" where
  \<comment> \<open>lines 159-165\<close>
  "broadcastMessage s m = sendAll s (clients s) m"

definition broadcastSystemMessage :: "int \<Rightarrow> string \<Rightarrow> string \<Rightarrow> string \<Rightarrow> state \<Rightarrow> error + state \<times> out" where
  \<comment> \<open>lines 167-193\<close>
  "broadcastSystemMessage now ts t channel s =
     (let m = SystemRecord t ts now
      in case storeRecord channel m s of
           Inl e \<Rightarrow> Inl e
         | Inr s' \<Rightarrow>
             Inr (s', if channel = ''global'' then broadcastMessage s' m
                      else (case teamChannels s' channel of None \<Rightarrow> []
                            | Some cs \<Rightarrow> sendAll s' cs m)))"

definition handleJoinTeam :: "string \<Rightarrow> conn \<Rightarrow> string option \<Rightarrow> state \<Rightarrow> state \<times> out" where
  \<comment> \<open>lines 105-118\<close>
  "handleJoinTeam ts ws code s =
     (case users s ws of
        None \<Rightarrow> (s, [])
      | Some u \<Rightarrow>
          if strictEq (teamCode u) code
          then (let teamUsers = (case teamChannels s (key code) of None \<Rightarrow> [] | Some cs \<Rightarrow> cs)
                in (s\<lparr>teamChannels := (teamChannels s)(key code \<mapsto> setAdd ws teamUsers)\<rparr>,
                    [(ws, SystemMessage (''Joined team channel for '' @ teamName code) ts)]))
          else (s, []))"

definition handleAuthRequest :: "string \<Rightarrow> conn \<Rightarrow> string option \<Rightarrow> state \<Rightarrow> state \<times> out" where
  \<comment> \<open>lines 91-103\<close>
  "handleAuthRequest ts ws code s =
     (if accepted code
      then (case users s ws of
              None \<Rightarrow> (s, [])
            | Some u \<Rightarrow>
                (let s1 = s\<lparr>users := (users s)(ws \<mapsto> u\<lparr>teamCode := code\<rparr>)\<rparr>;
                     r = handleJoinTeam ts ws code s1
                 in (fst r, (ws, AuthResponse True code ts) # snd r)))
      else (s, [(ws, AuthResponse False None ts)]))"

definition handleChatMessage :: "int \<Rightarrow> string \<Rightarrow> conn \<Rightarrow> string \<Rightarrow> string option \<Rightarrow> state \<Rightarrow> error + state \<times> out" where
  \<comment> \<open>lines 120-152; \<^verbatim>\<open>user.username\<close> throws when the socket has no session\<close>
  "handleChatMessage now ts ws t channel s =
     (case users s ws of
        None \<Rightarrow> Inl TypeError
      | Some u \<Rightarrow>
          (let m = ChatRecord (username u) t ts channel now
           in case storeRecord (key channel) m s of
                Inl e \<Rightarrow> Inl e
              | Inr s' \<Rightarrow>
                  Inr (s',
                    if channel = Some ''team'' \<and> truthy (teamCode u)
                    then (case teamChannels s' (key (teamCode u)) of None \<Rightarrow> []
                          | Some cs \<Rightarrow> sendAll s' cs m)
                    else if channel = Some ''global'' then broadcastMessage s' m
                    else [])))"

definition sendHistory :: "conn \<Rightarrow> string \<Rightarrow> state \<Rightarrow> out" where
  \<comment> \<open>lines 154-157; under an inherited name nothing is ever stored and the frame carries no
      record, written \<open>ChatHistory []\<close>\<close>
  "sendHistory ws channel s = [(ws, ChatHistory (history s channel))]"

definition onMessage :: "int \<Rightarrow> string \<Rightarrow> conn \<Rightarrow> request \<Rightarrow> state \<Rightarrow> state \<times> out" where
  \<comment> \<open>lines 41-76\<close>
  "onMessage now ts ws req s =
     (case req of
        Malformed \<Rightarrow> (s, [(ws, SystemMessage ''Error processing your request.'' ts)])
      | UserJoin name \<Rightarrow>
          (let un = orDefault name ''AnonymousSnake'';
               s1 = s\<lparr>users := (users s)(ws \<mapsto> \<lparr>username = Some un, teamCode = None, joined = True\<rparr>)\<rparr>
           in case broadcastSystemMessage now ts (''['' @ un @ ''] joined the chat.'') ''global'' s1 of
                Inl e \<Rightarrow> (s1, [(ws, SystemMessage ''Error processing your request.'' ts)])
              | Inr r \<Rightarrow> r)
      | AuthRequest code \<Rightarrow> if isJoined s ws then handleAuthRequest ts ws code s else (s, [])
      | JoinTeam code \<Rightarrow> if isJoined s ws then handleJoinTeam ts ws code s else (s, [])
      | ChatMessage t channel \<Rightarrow>
          if isJoined s ws
          then (case handleChatMessage now ts ws t channel s of
                  Inl e \<Rightarrow> (s, [(ws, SystemMessage ''Error processing your request.'' ts)])
                | Inr r \<Rightarrow> r)
          else (s, [])
      | GetHistory channel \<Rightarrow> if isJoined s ws then (s, sendHistory ws (key channel) s) else (s, [])
      | Unknown \<Rightarrow> (s, []))"

definition onClose :: "int \<Rightarrow> string \<Rightarrow> conn \<Rightarrow> state \<Rightarrow> error + state \<times> out" where
  \<comment> \<open>lines 78-88; the handler has no \<^verbatim>\<open>catch\<close>\<close>
  "onClose now ts ws s =
     (case users s ws of
        None \<Rightarrow> Inr (s, [])
      | Some u \<Rightarrow>
          (case broadcastSystemMessage now ts (''['' @ str (username u) @ ''] left the chat.'') ''global'' s of
             Inl e \<Rightarrow> Inl e
           | Inr r \<Rightarrow>
               (let s1 = fst r;
                    s2 = (if truthy (teamCode u)
                          then (case teamChannels s1 (key (teamCode u)) of
                                  None \<Rightarrow> s1
                                | Some cs \<Rightarrow> s1\<lparr>teamChannels := (teamChannels s1)
                                               (key (teamCode u) \<mapsto> removeAll ws cs)\<rparr>)
                          else s1)
                in Inr (s2\<lparr>users := (users s2)(ws := None)\<rparr>, snd r))))"

text \<open>
  The transport: a new socket joins \<^verbatim>\<open>wss.clients\<close> in state \<open>OPEN\<close>; a message is
  delivered only from a socket of \<^verbatim>\<open>wss.clients\<close>; a socket may start closing; on close
  the socket is \<open>CLOSED\<close> and out of \<^verbatim>\<open>wss.clients\<close> before the handler of line 78 runs.
  An exception that leaves the close handler would leave the state as the transport made
  it; the handler never throws (\<open>onClose_returns\<close> below).
\<close>

definition accept :: "state \<Rightarrow> state" where
  "accept s = s\<lparr>clients := clients s @ [nextConn s],
                readyState := (readyState s)(nextConn s := OPEN),
                nextConn := Suc (nextConn s)\<rparr>"

definition closing :: "conn \<Rightarrow> state \<Rightarrow> state" where
  "closing c s = s\<lparr>readyState := (readyState s)(c := CLOSING)\<rparr>"

definition closed :: "conn \<Rightarrow> state \<Rightarrow> state" where
  "closed c s = s\<lparr>clients := removeAll c (clients s), readyState := (readyState s)(c := CLOSED)\<rparr>"

definition step :: "int \<Rightarrow> string \<Rightarrow> request event \<Rightarrow> state \<Rightarrow> state \<times> out" where
  "step now ts ev s =
     (case ev of
        Connection \<Rightarrow> (accept s, [])
      | Message c req \<Rightarrow> if c \<in> set (clients s) then onMessage now ts c req s else (s, [])
      | Closing c \<Rightarrow> if c \<in> set (clients s) then (closing c s, []) else (s, [])
      | Close c \<Rightarrow>
          if c \<in> set (clients s)
          then (case onClose now ts c (closed c s) of Inl e \<Rightarrow> (closed c s, []) | Inr r \<Rightarrow> r)
          else (s, [])
      | Cleanup \<Rightarrow> (cleanup now s, []))"

fun run :: "state \<Rightarrow> (int \<times> string \<times> request event) list \<Rightarrow> state" where
  "run s [] = s"
| "run s ((now, ts, ev) # evs) = run (fst (step now ts ev s)) evs"

section \<open>src/unnamed/part_002\<close>

record credential =
  code :: string
  authorKey :: string

definition teamCodes_v2 :: "string \<rightharpoonup> credential" where
  \<comment> \<open>lines 11-14: the own properties of the object; it is read through \<open>readProp\<close>\<close>
  "teamCodes_v2 = map_of
     [(''[REKT]'', \<lparr>code = ''REKT'', authorKey = ''authorKeyREKT''\<rparr>),
      (''[SMT]'', \<lparr>code = ''SMT'', authorKey = ''authorKeySMT''\<rparr>)]"

definition authenticates :: "string option \<Rightarrow> string option \<Rightarrow> bool" where
  \<comment> \<open>line 104: \<^verbatim>\<open>teamCodes[code] && teamCodes[code].authorKey === authorKey\<close>; an inherited
      value has no \<^verbatim>\<open>authorKey\<close>, and \<^verbatim>\<open>undefined === authorKey\<close> holds for an absent key only\<close>
  "authenticates tc ak =
     (case readProp teamCodes_v2 (key tc) of
        Missing \<Rightarrow> False
      | Own cred \<Rightarrow> ak = Some (authorKey cred)
      | Inherited \<Rightarrow> ak = None)"

definition teamName_v2 :: "string option \<Rightarrow> string" where
  \<comment> \<open>line 111: \<^verbatim>\<open>${teamCodes[code].code}\<close>\<close>
  "teamName_v2 tc = (case readProp teamCodes_v2 (key tc) of
                       Missing \<Rightarrow> ''undefined'' | Own cred \<Rightarrow> code cred | Inherited \<Rightarrow> ''undefined'')"

definition known_v2 :: "string option \<Rightarrow> bool" where
  \<comment> \<open>line 118: \<^verbatim>\<open>teamCodes[code]\<close> is truthy\<close>
  "known_v2 tc = (case readProp teamCodes_v2 (key tc) of
                    Missing \<Rightarrow> False | Own cred \<Rightarrow> True | Inherited \<Rightarrow> True)"

definition MAX_HISTORY_v2 :: nat where
  "MAX_HISTORY_v2 = 50"

definition MSG_LIFETIME_MS_v2 :: int where
  "MSG_LIFETIME_MS_v2 = 10 * 60 * 1000"

definition cleanup_v2 :: "int \<Rightarrow> state \<Rightarrow> state" where
  \<comment> \<open>lines 28-33\<close>
  "cleanup_v2 now s = s\<lparr>messageHistory :=
     (\<lambda>channel. map_option (filter (\<lambda>m. now - rawTime m < MSG_LIFETIME_MS_v2))
        (messageHistory s channel))\<rparr>"

definition pushHistory_v2 :: "string \<Rightarrow> msg \<Rightarrow> state \<Rightarrow> state" where
  \<comment> \<open>lines 136-142 and 177-183 where \<^verbatim>\<open>messageHistory[channel]\<close> is an own array or nothing\<close>
  "pushHistory_v2 channel m s =
     (let h = history s channel @ [m]
      in s\<lparr>messageHistory := (messageHistory s)
            (channel \<mapsto> (if length h > MAX_HISTORY_v2 then tl h else h))\<rparr>)"

definition storeRecord_v2 :: "string \<Rightarrow> msg \<Rightarrow> state \<Rightarrow> error + state" where
  \<comment> \<open>lines 136-142 and 177-183: \<^verbatim>\<open>.push\<close> on an inherited value throws\<close>
  "storeRecord_v2 channel m s =
     (case readProp (messageHistory s) channel of
        Inherited \<Rightarrow> Inl TypeError
      | Own h \<Rightarrow> Inr (pushHistory_v2 channel m s)
      | Missing \<Rightarrow> Inr (pushHistory_v2 channel m s))"

definition broadcastMessage_v2 :: "state \<Rightarrow> msg \<Rightarrow> out" where
  \<comment> \<open>lines 160-166: open and joined\<close>
  "broadcastMessage_v2 s m =
     map (\<lambda>c. (c, Relay m))
       (filter (\<lambda>c. readyState s c = OPEN \<and> isJoined s c) (clients s))"

definition broadcastSystemMessage_v2 :: "int \<Rightarrow> string \<Rightarrow> string \<Rightarrow> string \<Rightarrow> state \<Rightarrow> error + state \<times> out" where
  \<comment> \<open>lines 168-194\<close>
  "broadcastSystemMessage_v2 now ts t channel s =
     (let m = SystemRecord t ts now
      in case storeRecord_v2 channel m s of
           Inl e \<Rightarrow> Inl e
         | Inr s' \<Rightarrow>
             Inr (s', if channel = ''global'' then broadcastMessage_v2 s' m
                      else (case teamChannels s' channel of None \<Rightarrow> []
                            | Some cs \<Rightarrow> sendAll s' cs m)))"

definition handleJoinTeam_v2 :: "string \<Rightarrow> conn \<Rightarrow> string option \<Rightarrow> string option \<Rightarrow> state \<Rightarrow> state \<times> out" where
  \<comment> \<open>lines 100-122\<close>
  "handleJoinTeam_v2 ts ws tc ak s =
     (case users s ws of
        None \<Rightarrow> (s, [])
      | Some u \<Rightarrow>
          if \<not> joined u then (s, [])
          else if authenticates tc ak
          then (let teamUsers = (case teamChannels s (key tc) of None \<Rightarrow> [] | Some cs \<Rightarrow> cs);
                    s' = s\<lparr>users := (users s)(ws \<mapsto> u\<lparr>teamCode := tc\<rparr>),
                           teamChannels := (teamChannels s)(key tc \<mapsto> setAdd ws teamUsers)\<rparr>
                in (s', (ws, SystemMessage (''Joined team channel for '' @ teamName_v2 tc) ts)
                        # sendHistory ws (key tc) s'))
          else (s, [(ws, SystemMessage (if known_v2 tc then ''Invalid author key.''
                                         else ''Invalid team code.'') ts)]))"

definition handleChatMessage_v2 :: "int \<Rightarrow> string \<Rightarrow> conn \<Rightarrow> string \<Rightarrow> string \<Rightarrow> state \<Rightarrow> error + state \<times> out" where
  \<comment> \<open>lines 124-153\<close>
  "handleChatMessage_v2 now ts ws t channel s =
     (case users s ws of
        None \<Rightarrow> Inl TypeError
      | Some u \<Rightarrow>
          (let m = ChatRecord (username u) t ts (Some channel) now
           in case storeRecord_v2 channel m s of
                Inl e \<Rightarrow> Inl e
              | Inr s' \<Rightarrow>
                  Inr (s',
                    if channel = ''global'' then broadcastMessage_v2 s' m
                    else if truthy (teamCode u)
                    then (case teamChannels s' (key (teamCode u)) of None \<Rightarrow> []
                          | Some cs \<Rightarrow> sendAll s' cs m)
                    else [])))"

definition onConnection_v2 :: "conn \<Rightarrow> state \<Rightarrow> state" where
  \<comment> \<open>line 45\<close>
  "onConnection_v2 ws s =
     s\<lparr>users := (users s)(ws \<mapsto> \<lparr>username = None, teamCode = None, joined = False\<rparr>)\<rparr>"

definition onMessage_v2 :: "int \<Rightarrow> string \<Rightarrow> conn \<Rightarrow> request_v2 \<Rightarrow> state \<Rightarrow> state \<times> out" where
  \<comment> \<open>lines 47-86; a read or write of a field of an absent session throws into the
      \<^verbatim>\<open>catch\<close> of line 79\<close>
  "onMessage_v2 now ts ws req s =
     (case req of
        Malformed_v2 \<Rightarrow> (s, [(ws, SystemMessage ''Error processing your request.'' ts)])
      | UserJoin_v2 name \<Rightarrow>
          (case users s ws of
             None \<Rightarrow> (s, [(ws, SystemMessage ''Error processing your request.'' ts)])
           | Some u \<Rightarrow>
               (let un = orDefault name ''AnonymousSnake'';
                    s1 = s\<lparr>users := (users s)(ws \<mapsto> u\<lparr>username := Some un, joined := True\<rparr>)\<rparr>
                in case broadcastSystemMessage_v2 now ts (''['' @ un @ ''] joined the chat.'') ''global'' s1 of
                     Inl e \<Rightarrow> (s1, [(ws, SystemMessage ''Error processing your request.'' ts)])
                   | Inr r \<Rightarrow> (fst r, snd r @ sendHistory ws ''global'' (fst r))))
      | JoinTeam_v2 tc ak \<Rightarrow> handleJoinTeam_v2 ts ws tc ak s
      | ChatMessage_v2 t channel \<Rightarrow>
          (case users s ws of
             None \<Rightarrow> (s, [(ws, SystemMessage ''Error processing your request.'' ts)])
           | Some u \<Rightarrow>
               if joined u
               then (case handleChatMessage_v2 now ts ws t (orDefault channel ''global'') s of
                       Inl e \<Rightarrow> (s, [(ws, SystemMessage ''Error processing your request.'' ts)])
                     | Inr r \<Rightarrow> r)
               else (s, []))
      | GetHistory_v2 channel \<Rightarrow>
          (case users s ws of
             None \<Rightarrow> (s, [(ws, SystemMessage ''Error processing your request.'' ts)])
           | Some u \<Rightarrow>
               if joined u then (s, sendHistory ws (orDefault channel ''global'') s) else (s, []))
      | Unknown_v2 \<Rightarrow> (s, [(ws, SystemMessage ''Unknown message type.'' ts)]))"

definition onClose_v2 :: "int \<Rightarrow> string \<Rightarrow> conn \<Rightarrow> state \<Rightarrow> error + state \<times> out" where
  \<comment> \<open>lines 88-97; the handler has no \<^verbatim>\<open>catch\<close>\<close>
  "onClose_v2 now ts ws s =
     (case users s ws of
        None \<Rightarrow> Inr (s, [])
      | Some u \<Rightarrow>
          if joined u
          then (case broadcastSystemMessage_v2 now ts (''['' @ str (username u) @ ''] left the chat.'') ''global'' s of
                  Inl e \<Rightarrow> Inl e
                | Inr r \<Rightarrow>
                    (let s1 = fst r;
                         s2 = (if truthy (teamCode u)
                               then (case teamChannels s1 (key (teamCode u)) of
                                       None \<Rightarrow> s1
                                     | Some cs \<Rightarrow> s1\<lparr>teamChannels := (teamChannels s1)
                                                    (key (teamCode u) \<mapsto> removeAll ws cs)\<rparr>)
                               else s1)
                     in Inr (s2\<lparr>users := (users s2)(ws := None)\<rparr>, snd r)))
          else Inr (s, []))"

definition step_v2 :: "int \<Rightarrow> string \<Rightarrow> request_v2 event \<Rightarrow> state \<Rightarrow> state \<times> out" where
  "step_v2 now ts ev s =
     (case ev of
        Connection \<Rightarrow> (onConnection_v2 (nextConn s) (accept s), [])
      | Message c req \<Rightarrow> if c \<in> set (clients s) then onMessage_v2 now ts c req s else (s, [])
      | Closing c \<Rightarrow> if c \<in> set (clients s) then (closing c s, []) else (s, [])
      | Close c \<Rightarrow>
          if c \<in> set (clients s)
          then (case onClose_v2 now ts c (closed c s) of Inl e \<Rightarrow> (closed c s, []) | Inr r \<Rightarrow> r)
          else (s, [])
      | Cleanup \<Rightarrow> (cleanup_v2 now s, []))"

fun run_v2 :: "state \<Rightarrow> (int \<times> string \<times> request_v2 event) list \<Rightarrow> state" where
  "run_v2 s [] = s"
| "run_v2 s ((now, ts, ev) # evs) = run_v2 (fst (step_v2 now ts ev s)) evs"

section \<open>Invariants and the History Store of the specification\<close>

definition historyBounded :: "state \<Rightarrow> bool" where
  "historyBounded s = (\<forall>ch. length (history s ch) \<le> MAX_HISTORY)"

text \<open>The specification's \<^verbatim>\<open>append\<close>: add at the tail, then drop the head until the length is
  at most the bound.\<close>

function trimHead :: "nat \<Rightarrow> 'a list \<Rightarrow> 'a list" where
  "trimHead n xs = (if length xs > n then trimHead n (tl xs) else xs)"
  by pat_completeness auto
termination
  by (relation "measure (\<lambda>(n, xs). length xs)") auto

declare trimHead.simps [simp del]

definition append_spec :: "nat \<Rightarrow> msg \<Rightarrow> msg list \<Rightarrow> msg list" where
  "append_spec n r h = trimHead n (h @ [r])"

definition survivors :: "nat \<Rightarrow> msg list \<Rightarrow> msg list" where
  \<comment> \<open>what is left of a buffer that holds at most \<open>n\<close> records once one more has been pushed\<close>
  "survivors n h = (if length h < n then h else tl h)"

definition members :: "state \<Rightarrow> string \<Rightarrow> conn list" where
  \<comment> \<open>\<^verbatim>\<open>teamChannels.get(t)\<close>, no set read as no member\<close>
  "members s t = (case teamChannels s t of None \<Rightarrow> [] | Some cs \<Rightarrow> cs)"

definition teamsConsistent :: "state \<Rightarrow> bool" where
  "teamsConsistent s =
     (\<forall>c u t. users s c = Some u \<and> teamCode u = Some t
        \<longrightarrow> accepted (Some t) \<and> c \<in> set (members s t))"

definition filed :: "string \<Rightarrow> msg \<Rightarrow> bool" where
  \<comment> \<open>a chat record lies under the key of its own channel field, a system record under
      \<^verbatim>\<open>global\<close>\<close>
  "filed k m = (if isChat m then key (channelOf m) = k else k = ''global'')"

definition recordsFiled :: "state \<Rightarrow> bool" where
  "recordsFiled s = (\<forall>k. list_all (filed k) (history s k))"

section \<open>Example runs\<close>

text \<open>Clock readings are in milliseconds; the strings are those readings as
  \<^verbatim>\<open>getCurrentTime()\<close> renders them (24-hour time in Asia/Kolkata).\<close>

definition exOld :: state where
  "exOld = run init
     [(1000, ''05:30:01'', Connection),
      (2000, ''05:30:02'', Message 0 (UserJoin (Some ''alice''))),
      (1700000, ''05:58:20'', Message 0 (ChatMessage ''hi'' (Some ''global'')))]"

definition exA :: state where
  \<comment> \<open>two sockets; socket 0 has joined as alice, socket 1 has sent nothing\<close>
  "exA = run init
     [(1000, ''05:30:01'', Connection),
      (1000, ''05:30:01'', Connection),
      (2000, ''05:30:02'', Message 0 (UserJoin (Some ''alice'')))]"

definition exPre :: state where
  \<comment> \<open>bob joins and posts under the channel name \<^verbatim>\<open>[REKT]\<close>\<close>
  "exPre = run init
     [(1000, ''05:30:01'', Connection),
      (1000, ''05:30:01'', Connection),
      (2000, ''05:30:02'', Message 0 (UserJoin (Some ''alice''))),
      (3000, ''05:30:03'', Message 1 (UserJoin (Some ''bob''))),
      (4000, ''05:30:04'', Message 1 (ChatMessage ''plan'' (Some ''[REKT]'')))]"

definition exTeam :: state where
  \<comment> \<open>alice authenticates for \<^verbatim>\<open>[REKT]\<close>\<close>
  "exTeam = run init
     [(1000, ''05:30:01'', Connection),
      (1000, ''05:30:01'', Connection),
      (2000, ''05:30:02'', Message 0 (UserJoin (Some ''alice''))),
      (3000, ''05:30:03'', Message 1 (UserJoin (Some ''bob''))),
      (4000, ''05:30:04'', Message 1 (ChatMessage ''plan'' (Some ''[REKT]''))),
      (5000, ''05:30:05'', Message 0 (AuthRequest (Some ''[REKT]'')))]"


definition exMixed :: state where
  \<comment> \<open>alice is in \<^verbatim>\<open>[REKT]\<close>, bob in \<^verbatim>\<open>[SMT]\<close>; alice has posted on channel \<^verbatim>\<open>team\<close>\<close>
  "exMixed = run init
     [(1000, ''05:30:01'', Connection),
      (1000, ''05:30:01'', Connection),
      (2000, ''05:30:02'', Message 0 (UserJoin (Some ''alice''))),
      (3000, ''05:30:03'', Message 1 (UserJoin (Some ''bob''))),
      (4000, ''05:30:04'', Message 0 (AuthRequest (Some ''[REKT]''))),
      (5000, ''05:30:05'', Message 1 (AuthRequest (Some ''[SMT]''))),
      (6000, ''05:30:06'', Message 0 (ChatMessage ''go rekt'' (Some ''team'')))]"


definition exA_v2 :: state where
  \<comment> \<open>part_002: three sockets; 0 and 1 have joined, 2 has sent nothing\<close>
  "exA_v2 = run_v2 init
     [(1000, ''05:30:01'', Connection),
      (1000, ''05:30:01'', Connection),
      (1000, ''05:30:01'', Connection),
      (2000, ''05:30:02'', Message 0 (UserJoin_v2 (Some ''alice''))),
      (3000, ''05:30:03'', Message 1 (UserJoin_v2 (Some ''bob'')))]"

definition exTeam_v2 :: state where
  \<comment> \<open>part_002: alice joins team \<^verbatim>\<open>[REKT]\<close> and posts on its channel\<close>
  "exTeam_v2 = run_v2 init
     [(1000, ''05:30:01'', Connection),
      (1000, ''05:30:01'', Connection),
      (1000, ''05:30:01'', Connection),
      (2000, ''05:30:02'', Message 0 (UserJoin_v2 (Some ''alice''))),
      (3000, ''05:30:03'', Message 1 (UserJoin_v2 (Some ''bob''))),
      (4000, ''05:30:04'', Message 0 (JoinTeam_v2 (Some ''[REKT]'') (Some ''authorKeyREKT''))),
      (5000, ''05:30:05'', Message 0 (ChatMessage_v2 ''plan'' (Some ''[REKT]'')))]"

section \<open>Properties\<close>

subsection \<open>Buffers, invariants and evaluation\<close>

lemma history_pushHistory_same:
  "history (pushHistory ch m s) ch =
     (if length (history s ch) < MAX_HISTORY then history s ch else tl (history s ch)) @ [m]"
  by (cases "history s ch") (auto simp: pushHistory_def history_def Let_def MAX_HISTORY_def)

lemma history_pushHistory_other:
  "ch' \<noteq> ch \<Longrightarrow> history (pushHistory ch m s) ch' = history s ch'"
  by (simp add: pushHistory_def history_def Let_def)

lemma pushHistory_fields [simp]:
  "users (pushHistory ch m s) = users s"
  "teamChannels (pushHistory ch m s) = teamChannels s"
  "clients (pushHistory ch m s) = clients s"
  "readyState (pushHistory ch m s) = readyState s"
  "nextConn (pushHistory ch m s) = nextConn s"
  by (simp_all add: pushHistory_def Let_def)

lemma historyBounded_pushHistory:
  assumes "historyBounded s"
  shows "historyBounded (pushHistory ch m s)"
  unfolding historyBounded_def
proof
  fix ch'
  have b: "length (history s ch) \<le> MAX_HISTORY" "length (history s ch') \<le> MAX_HISTORY"
    using assms by (simp_all add: historyBounded_def)
  show "length (history (pushHistory ch m s) ch') \<le> MAX_HISTORY"
  proof (cases "ch' = ch")
    case True
    then show ?thesis using b(1) by (auto simp: history_pushHistory_same MAX_HISTORY_def)
  next
    case False
    then show ?thesis using b(2) by (simp add: history_pushHistory_other)
  qed
qed

lemma history_cleanup:
  "history (cleanup now s) ch = filter (\<lambda>m. now - rawTime m < MSG_LIFETIME_MS) (history s ch)"
  by (simp add: cleanup_def history_def split: option.splits)

lemma historyBounded_cleanup: "historyBounded s \<Longrightarrow> historyBounded (cleanup now s)"
  unfolding historyBounded_def history_cleanup
  by (meson le_trans length_filter_le)

lemma history_update [simp]:
  "history (s\<lparr>users := x\<rparr>) = history s"
  "history (s\<lparr>teamChannels := y\<rparr>) = history s"
  "history (s\<lparr>clients := z\<rparr>) = history s"
  "history (s\<lparr>readyState := v\<rparr>) = history s"
  "history (s\<lparr>nextConn := w\<rparr>) = history s"
  by (simp_all add: history_def fun_eq_iff)

lemma historyBounded_update [simp]:
  "historyBounded (s\<lparr>users := x\<rparr>) = historyBounded s"
  "historyBounded (s\<lparr>teamChannels := y\<rparr>) = historyBounded s"
  "historyBounded (s\<lparr>clients := z\<rparr>) = historyBounded s"
  "historyBounded (s\<lparr>readyState := v\<rparr>) = historyBounded s"
  "historyBounded (s\<lparr>nextConn := w\<rparr>) = historyBounded s"
  by (simp_all add: historyBounded_def)

lemma historyBounded_handleJoinTeam:
  "historyBounded (fst (handleJoinTeam ts ws cd s)) = historyBounded s"
  by (simp add: handleJoinTeam_def Let_def split: option.splits)

lemma historyBounded_handleAuthRequest:
  "historyBounded (fst (handleAuthRequest ts ws cd s)) = historyBounded s"
  by (simp add: handleAuthRequest_def Let_def historyBounded_handleJoinTeam split: option.splits)

lemma not_inherited_global [simp]: "\<not> inherited ''global''"
  by (simp add: inherited_def)

lemma readProp_own_or_missing: "\<not> inherited k \<Longrightarrow> readProp obj k \<noteq> Inherited"
  by (simp add: readProp_def split: option.splits)

lemma storeRecord_Inr: "storeRecord ch m s = Inr s' \<Longrightarrow> s' = pushHistory ch m s"
  by (auto simp: storeRecord_def split: property.splits)

lemma storeRecord_stores:
  "readProp (messageHistory s) ch \<noteq> Inherited \<Longrightarrow> storeRecord ch m s = Inr (pushHistory ch m s)"
  by (simp add: storeRecord_def split: property.splits)

lemma storeRecord_throws:
  "readProp (messageHistory s) ch = Inherited \<Longrightarrow> storeRecord ch m s = Inl TypeError"
  by (simp add: storeRecord_def)

lemma broadcastSystemMessage_stores:
  "readProp (messageHistory s) ch \<noteq> Inherited \<Longrightarrow>
     fst (projr (broadcastSystemMessage now ts t ch s)) = pushHistory ch (SystemRecord t ts now) s"
  by (simp add: broadcastSystemMessage_def Let_def storeRecord_stores)

lemma broadcastSystemMessage_global:
  "broadcastSystemMessage now ts t ''global'' s
     = Inr (pushHistory ''global'' (SystemRecord t ts now) s,
            map (\<lambda>c. (c, Relay (SystemRecord t ts now)))
              (filter (\<lambda>c. readyState s c = OPEN) (clients s)))"
  by (simp add: broadcastSystemMessage_def Let_def storeRecord_stores readProp_own_or_missing
      broadcastMessage_def sendAll_def)

lemma handleChatMessage_Inr:
  "handleChatMessage now ts ws t ch s = Inr r \<Longrightarrow>
     \<exists>u. users s ws = Some u \<and> fst r = pushHistory (key ch) (ChatRecord (username u) t ts ch now) s"
  by (auto simp: handleChatMessage_def Let_def split: option.splits sum.splits dest: storeRecord_Inr)

lemma historyBounded_onMessage:
  "historyBounded s \<Longrightarrow> historyBounded (fst (onMessage now ts ws req s))"
proof (cases req)
  case (UserJoin name)
  assume "historyBounded s"
  then show ?thesis using UserJoin
    by (simp add: onMessage_def Let_def broadcastSystemMessage_global historyBounded_pushHistory)
next
  case (ChatMessage t ch)
  assume "historyBounded s"
  then show ?thesis using ChatMessage
    by (auto simp: onMessage_def historyBounded_pushHistory split: sum.splits dest!: handleChatMessage_Inr)
qed (simp_all add: onMessage_def historyBounded_handleJoinTeam historyBounded_handleAuthRequest)

lemma onClose_returns:
  "onClose now ts ws s
     = Inr (case users s ws of
              None \<Rightarrow> (s, [])
            | Some u \<Rightarrow>
                (let s1 = pushHistory ''global''
                            (SystemRecord (''['' @ str (username u) @ ''] left the chat.'') ts now) s;
                     s2 = (if truthy (teamCode u)
                           then (case teamChannels s1 (key (teamCode u)) of
                                   None \<Rightarrow> s1
                                 | Some cs \<Rightarrow> s1\<lparr>teamChannels := (teamChannels s1)
                                                (key (teamCode u) \<mapsto> removeAll ws cs)\<rparr>)
                           else s1)
                 in (s2\<lparr>users := (users s2)(ws := None)\<rparr>,
                     map (\<lambda>c. (c, Relay (SystemRecord (''['' @ str (username u) @ ''] left the chat.'') ts now)))
                       (filter (\<lambda>c. readyState s c = OPEN) (clients s)))))"
  by (simp add: onClose_def broadcastSystemMessage_global Let_def split: option.splits)

lemma step_Close:
  "step now ts (Close c) s
     = (if c \<in> set (clients s) then projr (onClose now ts c (closed c s)) else (s, []))"
  by (simp add: step_def onClose_returns)

lemma historyBounded_onClose:
  "historyBounded s \<Longrightarrow> historyBounded (fst (projr (onClose now ts ws s)))"
  by (simp add: onClose_returns Let_def historyBounded_pushHistory split: option.splits)

lemma historyBounded_step:
  assumes "historyBounded s"
  shows "historyBounded (fst (step now ts ev s))"
proof (cases ev)
  case (Close c)
  have "historyBounded (closed c s)"
    using assms by (simp add: closed_def)
  then show ?thesis
    using assms Close by (simp add: step_Close historyBounded_onClose)
qed (use assms in \<open>simp_all add: step_def historyBounded_onMessage historyBounded_cleanup
      accept_def closing_def\<close>)

lemma historyBounded_run: "historyBounded s \<Longrightarrow> historyBounded (run s evs)"
  by (induction s evs rule: run.induct) (simp_all add: historyBounded_step)

lemma historyBounded_init: "historyBounded init"
  by (simp add: historyBounded_def history_def init_def)


lemma trimHead_short: "length xs \<le> n \<Longrightarrow> trimHead n xs = xs"
  by (subst trimHead.simps) simp

lemma trimHead_one_over: "length xs = Suc n \<Longrightarrow> trimHead n xs = tl xs"
  by (subst trimHead.simps) (simp add: trimHead_short)

lemma append_spec_bounded:
  "0 < n \<Longrightarrow> length h \<le> n \<Longrightarrow> append_spec n r h = (if length h < n then h else tl h) @ [r]"
  by (cases h) (auto simp: append_spec_def trimHead_short trimHead_one_over)

lemmas ex_defs = init_def step_def accept_def closing_def closed_def onMessage_def onClose_def
  broadcastSystemMessage_def pushHistory_def history_def broadcastMessage_def sendAll_def
  orDefault_def MAX_HISTORY_def handleChatMessage_def handleAuthRequest_def handleJoinTeam_def
  sendHistory_def isJoined_def key_def str_def truthy_def strictEq_def setAdd_def teamCodes_def
  cleanup_def MSG_LIFETIME_MS_def storeRecord_def readProp_def inherited_def nativeText_def
  accepted_def teamName_def Let_def

lemma members_update [simp]:
  "members (s\<lparr>users := x\<rparr>) = members s"
  "members (s\<lparr>messageHistory := y\<rparr>) = members s"
  "members (s\<lparr>clients := z\<rparr>) = members s"
  "members (s\<lparr>readyState := v\<rparr>) = members s"
  "members (s\<lparr>nextConn := w\<rparr>) = members s"
  by (simp_all add: members_def fun_eq_iff)

lemma members_pushHistory [simp]: "members (pushHistory ch m s) = members s"
  by (simp add: members_def fun_eq_iff)

lemma teamsConsistent_update [simp]:
  "teamsConsistent (s\<lparr>messageHistory := y\<rparr>) = teamsConsistent s"
  "teamsConsistent (s\<lparr>clients := z\<rparr>) = teamsConsistent s"
  "teamsConsistent (s\<lparr>readyState := v\<rparr>) = teamsConsistent s"
  "teamsConsistent (s\<lparr>nextConn := w\<rparr>) = teamsConsistent s"
  by (simp_all add: teamsConsistent_def)

lemma teamsConsistent_pushHistory [simp]:
  "teamsConsistent (pushHistory ch m s) = teamsConsistent s"
  by (simp add: teamsConsistent_def)

lemma users_handleJoinTeam [simp]: "users (fst (handleJoinTeam ts ws cd s)) = users s"
  by (simp add: handleJoinTeam_def Let_def split: option.splits)













lemma set_history_pushHistory:
  "set (history (pushHistory ch m s) k)
     \<subseteq> (if k = ch then insert m (set (history s k)) else set (history s k))"
proof (cases "k = ch")
  case True
  have "set (tl xs) \<subseteq> set xs" for xs :: "msg list"
    by (cases xs) auto
  then show ?thesis using True
    by (auto simp: history_pushHistory_same)
next
  case False
  then show ?thesis by (simp add: history_pushHistory_other)
qed

lemma recordsFiled_pushHistory:
  assumes "recordsFiled s" and "filed ch m"
  shows "recordsFiled (pushHistory ch m s)"
  unfolding recordsFiled_def list_all_iff
proof (intro allI ballI)
  fix k x
  assume "x \<in> set (history (pushHistory ch m s) k)"
  then have "x \<in> (if k = ch then insert m (set (history s k)) else set (history s k))"
    using set_history_pushHistory by blast
  then show "filed k x"
    using assms by (auto simp: recordsFiled_def list_all_iff split: if_splits)
qed

lemma recordsFiled_cleanup: "recordsFiled s \<Longrightarrow> recordsFiled (cleanup now s)"
  by (simp add: recordsFiled_def history_cleanup list_all_iff)

lemma recordsFiled_update [simp]:
  "recordsFiled (s\<lparr>users := x\<rparr>) = recordsFiled s"
  "recordsFiled (s\<lparr>teamChannels := y\<rparr>) = recordsFiled s"
  "recordsFiled (s\<lparr>clients := z\<rparr>) = recordsFiled s"
  "recordsFiled (s\<lparr>readyState := v\<rparr>) = recordsFiled s"
  "recordsFiled (s\<lparr>nextConn := w\<rparr>) = recordsFiled s"
  by (simp_all add: recordsFiled_def)

lemma recordsFiled_handleJoinTeam:
  "recordsFiled (fst (handleJoinTeam ts ws cd s)) = recordsFiled s"
  by (simp add: handleJoinTeam_def Let_def split: option.splits)

lemma recordsFiled_handleAuthRequest:
  "recordsFiled (fst (handleAuthRequest ts ws cd s)) = recordsFiled s"
  by (simp add: handleAuthRequest_def Let_def recordsFiled_handleJoinTeam split: option.splits)

lemma recordsFiled_onMessage:
  assumes "recordsFiled s"
  shows "recordsFiled (fst (onMessage now ts ws req s))"
proof (cases req)
  case (UserJoin name)
  then show ?thesis using assms
    by (simp add: onMessage_def Let_def broadcastSystemMessage_global recordsFiled_pushHistory filed_def)
next
  case (ChatMessage t ch)
  then show ?thesis using assms
    by (auto simp: onMessage_def filed_def split: sum.splits dest!: handleChatMessage_Inr
        intro!: recordsFiled_pushHistory)
qed (use assms in \<open>simp_all add: onMessage_def recordsFiled_handleJoinTeam
      recordsFiled_handleAuthRequest\<close>)

lemma recordsFiled_onClose:
  "recordsFiled s \<Longrightarrow> recordsFiled (fst (projr (onClose now ts ws s)))"
  by (simp add: onClose_returns Let_def recordsFiled_pushHistory filed_def split: option.splits)

lemma recordsFiled_step:
  assumes "recordsFiled s"
  shows "recordsFiled (fst (step now ts ev s))"
proof (cases ev)
  case (Close c)
  have "recordsFiled (closed c s)"
    using assms by (simp add: closed_def)
  then show ?thesis
    using assms Close by (simp add: step_Close recordsFiled_onClose)
qed (use assms in \<open>simp_all add: step_def recordsFiled_onMessage recordsFiled_cleanup
      accept_def closing_def\<close>)

lemma recordsFiled_run: "recordsFiled s \<Longrightarrow> recordsFiled (run s evs)"
  by (induction s evs rule: run.induct) (simp_all add: recordsFiled_step)

lemma recordsFiled_init: "recordsFiled init"
  by (simp add: recordsFiled_def history_def init_def)

lemmas ex_defs_v2 = init_def step_v2_def accept_def closing_def closed_def onMessage_v2_def
  onClose_v2_def onConnection_v2_def broadcastSystemMessage_v2_def pushHistory_v2_def history_def
  broadcastMessage_v2_def sendAll_def orDefault_def MAX_HISTORY_v2_def handleChatMessage_v2_def
  handleJoinTeam_v2_def sendHistory_def isJoined_def key_def str_def truthy_def setAdd_def
  teamCodes_v2_def cleanup_v2_def MSG_LIFETIME_MS_v2_def storeRecord_v2_def readProp_def
  inherited_def authenticates_def teamName_v2_def known_v2_def Let_def

lemma history_pushHistory_survivors:
  "history (pushHistory ch m s) ch = survivors MAX_HISTORY (history s ch) @ [m]"
  by (simp add: history_pushHistory_same survivors_def)

lemma history_pushHistory_v2_same:
  "history (pushHistory_v2 ch m s) ch = survivors MAX_HISTORY_v2 (history s ch) @ [m]"
  by (cases "history s ch")
    (auto simp: pushHistory_v2_def history_def Let_def MAX_HISTORY_v2_def survivors_def)

lemma pushHistory_v2_fields [simp]:
  "users (pushHistory_v2 ch m s) = users s"
  "teamChannels (pushHistory_v2 ch m s) = teamChannels s"
  "clients (pushHistory_v2 ch m s) = clients s"
  "readyState (pushHistory_v2 ch m s) = readyState s"
  "nextConn (pushHistory_v2 ch m s) = nextConn s"
  by (simp_all add: pushHistory_v2_def Let_def)

lemma storeRecord_v2_stores:
  "readProp (messageHistory s) ch \<noteq> Inherited \<Longrightarrow> storeRecord_v2 ch m s = Inr (pushHistory_v2 ch m s)"
  by (simp add: storeRecord_v2_def split: property.splits)

lemma broadcastSystemMessage_v2_global:
  "broadcastSystemMessage_v2 now ts t ''global'' s
     = Inr (pushHistory_v2 ''global'' (SystemRecord t ts now) s,
            map (\<lambda>c. (c, Relay (SystemRecord t ts now)))
              (filter (\<lambda>c. readyState s c = OPEN \<and> isJoined s c) (clients s)))"
  by (simp add: broadcastSystemMessage_v2_def Let_def storeRecord_v2_stores readProp_own_or_missing
      broadcastMessage_v2_def isJoined_def)

lemma isJoined_pushHistory [simp]: "isJoined (pushHistory ch m s) c = isJoined s c"
  by (simp add: isJoined_def)


lemma onMessage_ChatMessage:
  assumes "users s ws = Some u" and "joined u"
    and "readProp (messageHistory s) (key channel) \<noteq> Inherited"
  shows "onMessage now ts ws (ChatMessage t channel) s
    = (pushHistory (key channel) (ChatRecord (username u) t ts channel now) s,
       if channel = Some ''team'' \<and> truthy (teamCode u)
       then map (\<lambda>c. (c, Relay (ChatRecord (username u) t ts channel now)))
              (filter (\<lambda>c. readyState s c = OPEN) (members s (key (teamCode u))))
       else if channel = Some ''global''
       then map (\<lambda>c. (c, Relay (ChatRecord (username u) t ts channel now)))
              (filter (\<lambda>c. readyState s c = OPEN) (clients s))
       else [])"
  using assms
  by (simp add: onMessage_def isJoined_def handleChatMessage_def Let_def broadcastMessage_def
      sendAll_def members_def storeRecord_stores split: option.splits)

lemma onMessage_ChatMessage_throws:
  assumes "isJoined s ws" and "readProp (messageHistory s) (key channel) = Inherited"
  shows "onMessage now ts ws (ChatMessage t channel) s
    = (s, [(ws, SystemMessage ''Error processing your request.'' ts)])"
  using assms
  by (simp add: onMessage_def handleChatMessage_def Let_def storeRecord_throws split: option.splits)

lemma onMessage_GetHistory:
  "isJoined s w \<Longrightarrow> onMessage now ts w (GetHistory channel) s
     = (s, [(w, ChatHistory (history s (key channel)))])"
  by (simp add: onMessage_def sendHistory_def)

subsection \<open>The claims\<close>

text \<open>
  Claim C1. A global chat message of a joined session goes to every open joined session and
  to no session that has not joined. In \<^verbatim>\<open>src/server.js\<close> \<open>broadcastMessage\<close> tests only the
  ready state: socket 1 below is open, has sent no \<^verbatim>\<open>user-join\<close> and has no session, and it is
  sent alice's message.
\<close>

theorem C1_unjoined_socket_receives:
  "users exA 1 = None \<and> readyState exA 1 = OPEN
   \<and> snd (step 3000 ''05:30:03'' (Message 0 (ChatMessage ''hi'' (Some ''global''))) exA)
     = [(0, Relay (ChatRecord (Some ''alice'') ''hi'' ''05:30:03'' (Some ''global'') 3000)),
        (1, Relay (ChatRecord (Some ''alice'') ''hi'' ''05:30:03'' (Some ''global'') 3000))]"
  by (simp add: exA_def ex_defs)

text \<open>
  \<^verbatim>\<open>src/unnamed/part_002\<close> adds the test \<^verbatim>\<open>users.get(client)?.joined\<close>: there the recipients
  are exactly the open, joined sockets, the sender among them when it is open.
\<close>

lemma global_chat_v2:
  assumes "users s ws = Some u" and "joined u"
  shows "onMessage_v2 now ts ws (ChatMessage_v2 t (Some ''global'')) s
    = (pushHistory_v2 ''global'' (ChatRecord (username u) t ts (Some ''global'') now) s,
       map (\<lambda>c. (c, Relay (ChatRecord (username u) t ts (Some ''global'') now)))
         (filter (\<lambda>c. readyState s c = OPEN \<and> isJoined s c) (clients s)))"
  using assms
  by (simp add: onMessage_v2_def handleChatMessage_v2_def broadcastMessage_v2_def orDefault_def
      isJoined_def storeRecord_v2_stores readProp_own_or_missing Let_def)

lemma global_chat_recipients_v2:
  assumes "users s ws = Some u" and "joined u"
  shows "fst ` set (snd (onMessage_v2 now ts ws (ChatMessage_v2 t (Some ''global'')) s))
    = {c \<in> set (clients s). readyState s c = OPEN \<and> isJoined s c}"
  by (simp add: global_chat_v2 [OF assms] image_image)

lemma global_chat_v2_example:
  "snd (step_v2 6000 ''05:30:06'' (Message 1 (ChatMessage_v2 ''hi'' (Some ''global''))) exA_v2)
     = [(0, Relay (ChatRecord (Some ''bob'') ''hi'' ''05:30:06'' (Some ''global'') 6000)),
        (1, Relay (ChatRecord (Some ''bob'') ''hi'' ''05:30:06'' (Some ''global'') 6000))]
   \<and> clients exA_v2 = [0, 1, 2] \<and> readyState exA_v2 2 = OPEN \<and> \<not> isJoined exA_v2 2"
  by (simp add: exA_v2_def ex_defs_v2)



text \<open>
  The name \<^verbatim>\<open>constructor\<close> is no entry of \<^verbatim>\<open>teamCodes\<close>, but \<^verbatim>\<open>teamCodes['constructor']\<close> is the
  inherited function \<^verbatim>\<open>Object\<close>, which is truthy: the request passes the test of line 93.
\<close>

lemma auth_request_inherited_name:
  "snd (step 3000 ''05:30:03'' (Message 0 (AuthRequest (Some ''constructor''))) exA)
     = [(0, AuthResponse True (Some ''constructor'') ''05:30:03''),
        (0, SystemMessage ''Joined team channel for function Object() { [native code] }'' ''05:30:03'')]"
  by (simp add: exA_def ex_defs)


text \<open>
  Claim C3. A \<^verbatim>\<open>get-history\<close> of a joined session is answered, to the requester alone and
  with no change of state, with the whole buffer of the channel that was asked for; neither
  revision looks at the session's team or at the membership sets.
\<close>

theorem C3_history_ignores_membership:
  assumes "isJoined s ws"
  shows "onMessage now ts ws (GetHistory channel) s
           = (s, [(ws, ChatHistory (history s (key channel)))])
       \<and> onMessage_v2 now ts ws (GetHistory_v2 channel) s
           = (s, [(ws, ChatHistory (history s (orDefault channel ''global'')))])"
  using assms
  by (auto simp: onMessage_def onMessage_v2_def sendHistory_def isJoined_def split: option.splits)

text \<open>
  A session with no team, in no membership set, reads what was posted under \<^verbatim>\<open>[REKT]\<close>.
\<close>

theorem C3_history_ignores_membership_witness:
  "isJoined exPre 0
   \<and> users exPre 0 = Some \<lparr>username = Some ''alice'', teamCode = None, joined = True\<rparr>
   \<and> members exPre ''[REKT]'' = []
   \<and> onMessage 9000 ''05:30:09'' 0 (GetHistory (Some ''[REKT]'')) exPre
       = (exPre, [(0, ChatHistory [ChatRecord (Some ''bob'') ''plan'' ''05:30:04'' (Some ''[REKT]'') 4000])])
   \<and> isJoined exTeam_v2 1
   \<and> users exTeam_v2 1 = Some \<lparr>username = Some ''bob'', teamCode = None, joined = True\<rparr>
   \<and> members exTeam_v2 ''[REKT]'' = [0]
   \<and> onMessage_v2 9000 ''05:30:09'' 1 (GetHistory_v2 (Some ''[REKT]'')) exTeam_v2
       = (exTeam_v2, [(1, ChatHistory [ChatRecord (Some ''alice'') ''plan'' ''05:30:05'' (Some ''[REKT]'') 5000])])"
proof -
  have a: "isJoined exPre 0"
    and b: "users exPre 0 = Some \<lparr>username = Some ''alice'', teamCode = None, joined = True\<rparr>"
    and c: "members exPre ''[REKT]'' = []"
    and d: "history exPre ''[REKT]'' = [ChatRecord (Some ''bob'') ''plan'' ''05:30:04'' (Some ''[REKT]'') 4000]"
    by (simp_all add: exPre_def members_def ex_defs)
  have e: "isJoined exTeam_v2 1"
    and f: "users exTeam_v2 1 = Some \<lparr>username = Some ''bob'', teamCode = None, joined = True\<rparr>"
    and g: "members exTeam_v2 ''[REKT]'' = [0]"
    and h: "history exTeam_v2 ''[REKT]'' = [ChatRecord (Some ''alice'') ''plan'' ''05:30:05'' (Some ''[REKT]'') 5000]"
    by (simp_all add: exTeam_v2_def members_def ex_defs_v2)
  show ?thesis
    using C3_history_ignores_membership [OF a, of 9000 "''05:30:09''" "Some ''[REKT]''"]
      C3_history_ignores_membership [OF e, of 9000 "''05:30:09''" "Some ''[REKT]''"]
      a b c d e f g h
    by (simp add: key_def orDefault_def)
qed

text \<open>
  Claim C4, as amended for \<^verbatim>\<open>src/unnamed/part_002\<close>. A \<^verbatim>\<open>join-team\<close> of a joined session that
  fails the test of line 104 changes no state and sends the requester alone one system
  message, whose text names the cause: \<^verbatim>\<open>Invalid team code.\<close> when \<^verbatim>\<open>teamCodes[code]\<close> is
  undefined, \<^verbatim>\<open>Invalid author key.\<close> when it is a value (an entry of the table, or a value
  inherited under a name such as \<^verbatim>\<open>constructor\<close>) and the key does not match.
\<close>

theorem C4_failure_reply_names_cause:
  assumes "isJoined s ws" and "\<not> authenticates tc ak"
  shows "onMessage_v2 now ts ws (JoinTeam_v2 tc ak) s
    = (s, [(ws, SystemMessage
              (if teamCodes_v2 (key tc) = None \<and> \<not> inherited (key tc)
               then ''Invalid team code.'' else ''Invalid author key.'') ts)])"
  using assms
  by (auto simp: onMessage_v2_def handleJoinTeam_v2_def isJoined_def known_v2_def readProp_def
      split: option.splits)

text \<open>The three ways to fail, for bob in \<open>exA_v2\<close>.\<close>

theorem C4_failure_reply_names_cause_witness:
  "isJoined exA_v2 1
   \<and> \<not> authenticates (Some ''[REKT]'') (Some ''guess'')
   \<and> \<not> authenticates (Some ''[NOPE]'') (Some ''guess'')
   \<and> \<not> authenticates (Some ''constructor'') (Some ''guess'')
   \<and> onMessage_v2 6000 ''05:30:06'' 1 (JoinTeam_v2 (Some ''[REKT]'') (Some ''guess'')) exA_v2
       = (exA_v2, [(1, SystemMessage ''Invalid author key.'' ''05:30:06'')])
   \<and> onMessage_v2 6000 ''05:30:06'' 1 (JoinTeam_v2 (Some ''[NOPE]'') (Some ''guess'')) exA_v2
       = (exA_v2, [(1, SystemMessage ''Invalid team code.'' ''05:30:06'')])
   \<and> onMessage_v2 6000 ''05:30:06'' 1 (JoinTeam_v2 (Some ''constructor'') (Some ''guess'')) exA_v2
       = (exA_v2, [(1, SystemMessage ''Invalid author key.'' ''05:30:06'')])"
proof -
  have j: "isJoined exA_v2 1"
    by (simp add: exA_v2_def ex_defs_v2)
  have 1: "\<not> authenticates (Some ''[REKT]'') (Some ''guess'')"
    and 2: "\<not> authenticates (Some ''[NOPE]'') (Some ''guess'')"
    and 3: "\<not> authenticates (Some ''constructor'') (Some ''guess'')"
    by (simp_all add: authenticates_def readProp_def inherited_def key_def teamCodes_v2_def)
  show ?thesis
    using C4_failure_reply_names_cause [OF j 1, of 6000 "''05:30:06''"]
      C4_failure_reply_names_cause [OF j 2, of 6000 "''05:30:06''"]
      C4_failure_reply_names_cause [OF j 3, of 6000 "''05:30:06''"] j 1 2 3
    by (simp add: key_def teamCodes_v2_def inherited_def)
qed

text \<open>
  The claim as stated (one generic reply for both causes) fails: the two replies differ.
\<close>

theorem C4_failure_reply_counterexample:
  "snd (step_v2 6000 ''05:30:06'' (Message 1 (JoinTeam_v2 (Some ''[REKT]'') (Some ''guess''))) exA_v2)
     = [(1, SystemMessage ''Invalid author key.'' ''05:30:06'')]
   \<and> snd (step_v2 6000 ''05:30:06'' (Message 1 (JoinTeam_v2 (Some ''[NOPE]'') (Some ''guess''))) exA_v2)
     = [(1, SystemMessage ''Invalid team code.'' ''05:30:06'')]
   \<and> snd (step_v2 6000 ''05:30:06'' (Message 1 (JoinTeam_v2 (Some ''[REKT]'') (Some ''guess''))) exA_v2)
     \<noteq> snd (step_v2 6000 ''05:30:06'' (Message 1 (JoinTeam_v2 (Some ''[NOPE]'') (Some ''guess''))) exA_v2)"
  by (simp add: exA_v2_def ex_defs_v2)

text \<open>
  Not a failure: under an inherited name \<^verbatim>\<open>teamCodes[code].authorKey\<close> is undefined, and so
  is the \<^verbatim>\<open>authorKey\<close> of a request that carries none; the test of line 104 passes.
\<close>

lemma join_team_v2_inherited_name:
  "authenticates (Some ''constructor'') None
   \<and> snd (step_v2 6000 ''05:30:06'' (Message 1 (JoinTeam_v2 (Some ''constructor'') None)) exA_v2)
       = [(1, SystemMessage ''Joined team channel for undefined'' ''05:30:06''),
          (1, ChatHistory [])]
   \<and> users (fst (step_v2 6000 ''05:30:06'' (Message 1 (JoinTeam_v2 (Some ''constructor'') None)) exA_v2)) 1
       = Some \<lparr>username = Some ''bob'', teamCode = Some ''constructor'', joined = True\<rparr>"
  by (simp add: exA_v2_def ex_defs_v2)

text \<open>
  \<^verbatim>\<open>src/server.js\<close> has no author key. Its \<^verbatim>\<open>auth-request\<close> fails for one cause only, a code
  that \<^verbatim>\<open>teamCodes\<close> does not know, with one reply; a \<^verbatim>\<open>join-team\<close> for a code that is not the
  session's team is not answered at all.
\<close>

lemma auth_request_failure_reply:
  assumes "isJoined s ws" and "\<not> accepted cd"
  shows "onMessage now ts ws (AuthRequest cd) s = (s, [(ws, AuthResponse False None ts)])"
  using assms by (simp add: onMessage_def handleAuthRequest_def)

lemma join_team_failure_silent:
  assumes "users s ws = Some u" and "\<not> strictEq (teamCode u) cd"
  shows "onMessage now ts ws (JoinTeam cd) s = (s, [])"
  using assms by (simp add: onMessage_def handleJoinTeam_def)

text \<open>
  Claim C5. A successful team join sets the team, adds the member, confirms to the
  requester and delivers the team channel's history to the requester. In \<^verbatim>\<open>src/server.js\<close>
  neither the \<^verbatim>\<open>auth-request\<close> that passes the gate nor a later \<^verbatim>\<open>join-team\<close> sends a
  \<^verbatim>\<open>chat-history\<close> frame, although the team's buffer holds a record.
\<close>

theorem C5_join_sends_no_history:
  "history exPre ''[REKT]'' = [ChatRecord (Some ''bob'') ''plan'' ''05:30:04'' (Some ''[REKT]'') 4000]
   \<and> snd (step 5000 ''05:30:05'' (Message 0 (AuthRequest (Some ''[REKT]''))) exPre)
       = [(0, AuthResponse True (Some ''[REKT]'') ''05:30:05''),
          (0, SystemMessage ''Joined team channel for REKT'' ''05:30:05'')]
   \<and> fst (step 5000 ''05:30:05'' (Message 0 (AuthRequest (Some ''[REKT]''))) exPre) = exTeam
   \<and> snd (step 6000 ''05:30:06'' (Message 0 (JoinTeam (Some ''[REKT]''))) exTeam)
       = [(0, SystemMessage ''Joined team channel for REKT'' ''05:30:06'')]"
proof -
  have run_snoc: "run s (evs @ [(now, ts, ev)]) = fst (step now ts ev (run s evs))"
    for s evs now ts ev
    by (induction s evs rule: run.induct) simp_all
  have "exTeam = fst (step 5000 ''05:30:05'' (Message 0 (AuthRequest (Some ''[REKT]''))) exPre)"
    unfolding exTeam_def exPre_def
    using run_snoc [of init "[(1000, ''05:30:01'', Connection),
      (1000, ''05:30:01'', Connection),
      (2000, ''05:30:02'', Message 0 (UserJoin (Some ''alice''))),
      (3000, ''05:30:03'', Message 1 (UserJoin (Some ''bob''))),
      (4000, ''05:30:04'', Message 1 (ChatMessage ''plan'' (Some ''[REKT]'')))]"]
    by simp
  moreover have "history exPre ''[REKT]'' = [ChatRecord (Some ''bob'') ''plan'' ''05:30:04'' (Some ''[REKT]'') 4000]"
    and "snd (step 5000 ''05:30:05'' (Message 0 (AuthRequest (Some ''[REKT]''))) exPre)
       = [(0, AuthResponse True (Some ''[REKT]'') ''05:30:05''),
          (0, SystemMessage ''Joined team channel for REKT'' ''05:30:05'')]"
    by (simp_all add: exPre_def ex_defs)
  moreover have "snd (step 6000 ''05:30:06'' (Message 0 (JoinTeam (Some ''[REKT]''))) exTeam)
       = [(0, SystemMessage ''Joined team channel for REKT'' ''05:30:06'')]"
    by (simp add: exTeam_def ex_defs)
  ultimately show ?thesis by simp
qed

text \<open>In general, for \<^verbatim>\<open>src/server.js\<close>: the replies carry no history.\<close>

lemma join_team_reply:
  assumes "users s ws = Some u" and "joined u" and "teamCode u = Some t"
  shows "onMessage now ts ws (JoinTeam (Some t)) s
    = (s\<lparr>teamChannels := (teamChannels s)(t \<mapsto> setAdd ws (members s t))\<rparr>,
       [(ws, SystemMessage (''Joined team channel for '' @ teamName (Some t)) ts)])"
  using assms
  by (simp add: onMessage_def isJoined_def handleJoinTeam_def strictEq_def key_def Let_def
      members_def)

lemma auth_request_reply:
  assumes "users s ws = Some u" and "joined u" and "teamCodes t = Some n" and "n \<noteq> []"
  shows "onMessage now ts ws (AuthRequest (Some t)) s
    = (s\<lparr>users := (users s)(ws \<mapsto> u\<lparr>teamCode := Some t\<rparr>),
          teamChannels := (teamChannels s)(t \<mapsto> setAdd ws (members s t))\<rparr>,
       [(ws, AuthResponse True (Some t) ts),
        (ws, SystemMessage (''Joined team channel for '' @ n) ts)])"
  using assms
  by (simp add: onMessage_def isJoined_def handleAuthRequest_def handleJoinTeam_def strictEq_def
      key_def accepted_def teamName_def readProp_def Let_def members_def)

text \<open>
  \<^verbatim>\<open>src/unnamed/part_002\<close> does what the claim says: on success the team is set, the
  connection is added, and the requester gets the confirmation and then the history of the
  team's channel; on failure the state is unchanged.
\<close>

lemma join_team_v2_success:
  assumes "users s ws = Some u" and "joined u"
    and "teamCodes_v2 (key tc) = Some cred" and "ak = Some (authorKey cred)"
  shows "onMessage_v2 now ts ws (JoinTeam_v2 tc ak) s
    = (s\<lparr>users := (users s)(ws \<mapsto> u\<lparr>teamCode := tc\<rparr>),
          teamChannels := (teamChannels s)(key tc \<mapsto> setAdd ws (members s (key tc)))\<rparr>,
       [(ws, SystemMessage (''Joined team channel for '' @ code cred) ts),
        (ws, ChatHistory (history s (key tc)))])"
  using assms
  by (simp add: onMessage_v2_def handleJoinTeam_v2_def Let_def sendHistory_def members_def
      history_def authenticates_def teamName_v2_def readProp_def)

lemma join_team_v2_failure:
  assumes "users s ws = Some u" and "joined u" and "\<not> authenticates tc ak"
  shows "fst (onMessage_v2 now ts ws (JoinTeam_v2 tc ak) s) = s"
  using assms
  by (simp add: onMessage_v2_def handleJoinTeam_v2_def)

lemma join_team_v2_example:
  "snd (step_v2 6000 ''05:30:06'' (Message 1 (JoinTeam_v2 (Some ''[REKT]'') (Some ''authorKeyREKT''))) exTeam_v2)
     = [(1, SystemMessage ''Joined team channel for REKT'' ''05:30:06''),
        (1, ChatHistory [ChatRecord (Some ''alice'') ''plan'' ''05:30:05'' (Some ''[REKT]'') 5000])]"
  by (simp add: exTeam_v2_def ex_defs_v2)

text \<open>
  Claim C6. In every state that \<^verbatim>\<open>src/server.js\<close> reaches from its start, every channel's
  buffer holds at most \<open>MAX_HISTORY\<close> records. On such a state the code's append (push,
  then one shift if the length is over the bound) is the specification's append (push, then
  drop the head while the length is over the bound), and the bound holds again after it.
\<close>

theorem C6_history_bounded:
  "length (history (run init evs) channel) \<le> MAX_HISTORY
   \<and> history (pushHistory channel m (run init evs)) channel
       = append_spec MAX_HISTORY m (history (run init evs) channel)
   \<and> length (history (pushHistory channel m (run init evs)) ch') \<le> MAX_HISTORY"
proof -
  have b: "historyBounded (run init evs)"
    by (rule historyBounded_run [OF historyBounded_init])
  then have l: "length (history (run init evs) channel) \<le> MAX_HISTORY"
    by (simp add: historyBounded_def)
  have "historyBounded (pushHistory channel m (run init evs))"
    by (rule historyBounded_pushHistory [OF b])
  then have "length (history (pushHistory channel m (run init evs)) ch') \<le> MAX_HISTORY"
    by (simp add: historyBounded_def)
  moreover have "0 < MAX_HISTORY"
    by (simp add: MAX_HISTORY_def)
  then have "append_spec MAX_HISTORY m (history (run init evs) channel)
      = (if length (history (run init evs) channel) < MAX_HISTORY
         then history (run init evs) channel else tl (history (run init evs) channel)) @ [m]"
    using l by (rule append_spec_bounded)
  ultimately show ?thesis
    using l by (simp add: history_pushHistory_same)
qed

text \<open>
  Claim C7. After the cleanup job has run at time \<open>now\<close>, every record left in a channel's
  buffer is younger than \<open>MSG_LIFETIME_MS\<close>, every record that was removed was not, the
  survivors keep their order and their multiplicity, and no buffer is created or deleted.
\<close>

theorem C7_cleanup:
  "(\<forall>m \<in> set (history (cleanup now s) channel). now - rawTime m < MSG_LIFETIME_MS)
   \<and> (\<forall>m \<in> set (history s channel). m \<notin> set (history (cleanup now s) channel)
         \<longrightarrow> \<not> now - rawTime m < MSG_LIFETIME_MS)
   \<and> subseq (history (cleanup now s) channel) (history s channel)
   \<and> (\<forall>m. now - rawTime m < MSG_LIFETIME_MS
         \<longrightarrow> count_list (history (cleanup now s) channel) m = count_list (history s channel) m)
   \<and> dom (messageHistory (cleanup now s)) = dom (messageHistory s)"
proof -
  have c: "count_list (filter P xs) m = (if P m then count_list xs m else 0)" for P and xs :: "msg list" and m
    by (induction xs) auto
  have d: "dom (messageHistory (cleanup now s)) = dom (messageHistory s)"
    by (auto simp: cleanup_def dom_def)
  show ?thesis
    by (simp add: history_cleanup c d)
qed

text \<open>An old join notice is swept, a younger chat record stays.\<close>

theorem C7_cleanup_witness:
  "history exOld ''global''
     = [SystemRecord ''[alice] joined the chat.'' ''05:30:02'' 2000,
        ChatRecord (Some ''alice'') ''hi'' ''05:58:20'' (Some ''global'') 1700000]
   \<and> history (cleanup 1802000 exOld) ''global''
     = [ChatRecord (Some ''alice'') ''hi'' ''05:58:20'' (Some ''global'') 1700000]
   \<and> \<not> 1802000 - rawTime (SystemRecord ''[alice] joined the chat.'' ''05:30:02'' 2000) < MSG_LIFETIME_MS
   \<and> subseq (history (cleanup 1802000 exOld) ''global'') (history exOld ''global'')"
  using C7_cleanup [of 1802000 exOld "''global''"]
  by (simp add: exOld_def ex_defs)




text \<open>
  Claim C9, as amended. A \<^verbatim>\<open>user-join\<close> from a session that has already joined sets the
  display name and, as a first join does, appends a new \<^verbatim>\<open>joined the chat\<close> system record to
  the global history and broadcasts it: to every open socket in \<^verbatim>\<open>src/server.js\<close> (which
  also resets the session's team), to every open joined socket in \<^verbatim>\<open>src/unnamed/part_002\<close>
  (which also sends the requester the global history).
\<close>

theorem C9_rejoin_broadcasts_again:
  assumes "users s ws = Some u" and "joined u"
  shows "(let un = orDefault name ''AnonymousSnake'';
              m = SystemRecord (''['' @ un @ ''] joined the chat.'') ts now;
              r = onMessage now ts ws (UserJoin name) s
          in users (fst r) ws = Some \<lparr>username = Some un, teamCode = None, joined = True\<rparr>
             \<and> history (fst r) ''global'' = survivors MAX_HISTORY (history s ''global'') @ [m]
             \<and> snd r = map (\<lambda>c. (c, Relay m)) (filter (\<lambda>c. readyState s c = OPEN) (clients s)))
       \<and> (let un = orDefault name ''AnonymousSnake'';
              m = SystemRecord (''['' @ un @ ''] joined the chat.'') ts now;
              r = onMessage_v2 now ts ws (UserJoin_v2 name) s
          in users (fst r) ws = Some (u\<lparr>username := Some un\<rparr>)
             \<and> history (fst r) ''global'' = survivors MAX_HISTORY_v2 (history s ''global'') @ [m]
             \<and> snd r = map (\<lambda>c. (c, Relay m))
                          (filter (\<lambda>c. readyState s c = OPEN \<and> isJoined s c) (clients s))
                        @ [(ws, ChatHistory (survivors MAX_HISTORY_v2 (history s ''global'') @ [m]))])"
proof -
  have j: "isJoined (pushHistory_v2 ch m (s\<lparr>users := (users s)(ws \<mapsto> u\<lparr>username := x, joined := True\<rparr>)\<rparr>)) c
      = isJoined s c" for ch m x c
    using assms by (simp add: isJoined_def)
  have j': "isJoined (s\<lparr>users := (users s)(ws \<mapsto> u\<lparr>username := x, joined := True\<rparr>)\<rparr>) c
      = isJoined s c" for x c
    using assms by (simp add: isJoined_def)
  have 1: "fst (onMessage now ts ws (UserJoin name) s)
      = pushHistory ''global''
          (SystemRecord (''['' @ orDefault name ''AnonymousSnake'' @ ''] joined the chat.'') ts now)
          (s\<lparr>users := (users s)(ws \<mapsto>
              \<lparr>username = Some (orDefault name ''AnonymousSnake''), teamCode = None, joined = True\<rparr>)\<rparr>)"
    by (simp add: onMessage_def Let_def broadcastSystemMessage_global)
  have 2: "snd (onMessage now ts ws (UserJoin name) s)
      = map (\<lambda>c. (c, Relay (SystemRecord (''['' @ orDefault name ''AnonymousSnake'' @ ''] joined the chat.'') ts now)))
          (filter (\<lambda>c. readyState s c = OPEN) (clients s))"
    by (simp add: onMessage_def Let_def broadcastSystemMessage_global)
  have 3: "fst (onMessage_v2 now ts ws (UserJoin_v2 name) s)
      = pushHistory_v2 ''global''
          (SystemRecord (''['' @ orDefault name ''AnonymousSnake'' @ ''] joined the chat.'') ts now)
          (s\<lparr>users := (users s)(ws \<mapsto> u\<lparr>username := Some (orDefault name ''AnonymousSnake''), joined := True\<rparr>)\<rparr>)"
    using assms by (simp add: onMessage_v2_def Let_def broadcastSystemMessage_v2_global)
  have 4: "snd (onMessage_v2 now ts ws (UserJoin_v2 name) s)
      = map (\<lambda>c. (c, Relay (SystemRecord (''['' @ orDefault name ''AnonymousSnake'' @ ''] joined the chat.'') ts now)))
          (filter (\<lambda>c. readyState s c = OPEN \<and> isJoined s c) (clients s))
        @ [(ws, ChatHistory (survivors MAX_HISTORY_v2 (history s ''global'')
             @ [SystemRecord (''['' @ orDefault name ''AnonymousSnake'' @ ''] joined the chat.'') ts now]))]"
    using assms
    by (simp add: onMessage_v2_def Let_def broadcastSystemMessage_v2_global
        sendHistory_def history_pushHistory_v2_same j')
  show ?thesis
    unfolding Let_def 1 2 3 4
    using assms by (simp add: history_pushHistory_survivors history_pushHistory_v2_same)
qed

text \<open>Alice renames herself in \<open>exA\<close>, bob in \<open>exA_v2\<close>.\<close>

theorem C9_rejoin_broadcasts_again_witness:
  "users exA 0 = Some \<lparr>username = Some ''alice'', teamCode = None, joined = True\<rparr>
   \<and> users (fst (onMessage 3000 ''05:30:03'' 0 (UserJoin (Some ''alicia'')) exA)) 0
       = Some \<lparr>username = Some ''alicia'', teamCode = None, joined = True\<rparr>
   \<and> history (fst (onMessage 3000 ''05:30:03'' 0 (UserJoin (Some ''alicia'')) exA)) ''global''
       = [SystemRecord ''[alice] joined the chat.'' ''05:30:02'' 2000,
          SystemRecord ''[alicia] joined the chat.'' ''05:30:03'' 3000]
   \<and> snd (onMessage 3000 ''05:30:03'' 0 (UserJoin (Some ''alicia'')) exA)
       = [(0, Relay (SystemRecord ''[alicia] joined the chat.'' ''05:30:03'' 3000)),
          (1, Relay (SystemRecord ''[alicia] joined the chat.'' ''05:30:03'' 3000))]
   \<and> users exA_v2 1 = Some \<lparr>username = Some ''bob'', teamCode = None, joined = True\<rparr>
   \<and> snd (onMessage_v2 6000 ''05:30:06'' 1 (UserJoin_v2 (Some ''bobby'')) exA_v2)
       = [(0, Relay (SystemRecord ''[bobby] joined the chat.'' ''05:30:06'' 6000)),
          (1, Relay (SystemRecord ''[bobby] joined the chat.'' ''05:30:06'' 6000)),
          (1, ChatHistory
            [SystemRecord ''[alice] joined the chat.'' ''05:30:02'' 2000,
             SystemRecord ''[bob] joined the chat.'' ''05:30:03'' 3000,
             SystemRecord ''[bobby] joined the chat.'' ''05:30:06'' 6000])]"
proof -
  have u: "users exA 0 = Some \<lparr>username = Some ''alice'', teamCode = None, joined = True\<rparr>"
    and h: "history exA ''global'' = [SystemRecord ''[alice] joined the chat.'' ''05:30:02'' 2000]"
    and c: "clients exA = [0, 1]" "readyState exA 0 = OPEN" "readyState exA 1 = OPEN"
    by (simp_all add: exA_def ex_defs)
  have u2: "users exA_v2 1 = Some \<lparr>username = Some ''bob'', teamCode = None, joined = True\<rparr>"
    and h2: "history exA_v2 ''global''
      = [SystemRecord ''[alice] joined the chat.'' ''05:30:02'' 2000,
         SystemRecord ''[bob] joined the chat.'' ''05:30:03'' 3000]"
    and c2: "clients exA_v2 = [0, 1, 2]" "readyState exA_v2 0 = OPEN" "readyState exA_v2 1 = OPEN"
      "isJoined exA_v2 0" "isJoined exA_v2 1" "\<not> isJoined exA_v2 2"
    by (simp_all add: exA_v2_def ex_defs_v2)
  have j: "joined \<lparr>username = Some nm, teamCode = None, joined = True\<rparr>" for nm
    by simp
  show ?thesis
    using C9_rejoin_broadcasts_again [OF u j, of "Some ''alicia''" "''05:30:03''" 3000]
      C9_rejoin_broadcasts_again [OF u2 j, of "Some ''bobby''" "''05:30:06''" 6000]
      u h c u2 h2 c2
    by (simp add: Let_def orDefault_def survivors_def MAX_HISTORY_def MAX_HISTORY_v2_def)
qed

text \<open>
  The claim as stated (no further broadcast, no further record) fails: alice has joined,
  her second \<^verbatim>\<open>user-join\<close> is broadcast and the global history grows by one record.
\<close>

theorem C9_rejoin_counterexample:
  "isJoined exA 0
   \<and> history exA ''global'' = [SystemRecord ''[alice] joined the chat.'' ''05:30:02'' 2000]
   \<and> snd (step 3000 ''05:30:03'' (Message 0 (UserJoin (Some ''alicia''))) exA)
     = [(0, Relay (SystemRecord ''[alicia] joined the chat.'' ''05:30:03'' 3000)),
        (1, Relay (SystemRecord ''[alicia] joined the chat.'' ''05:30:03'' 3000))]
   \<and> history (fst (step 3000 ''05:30:03'' (Message 0 (UserJoin (Some ''alicia''))) exA)) ''global''
     = [SystemRecord ''[alice] joined the chat.'' ''05:30:02'' 2000,
        SystemRecord ''[alicia] joined the chat.'' ''05:30:03'' 3000]"
  by (simp add: exA_def ex_defs)

text \<open>
  Claim C10, as amended for \<^verbatim>\<open>src/server.js\<close>. A \<^verbatim>\<open>chat-message\<close> on channel \<^verbatim>\<open>team\<close> from a
  joined session with a team is appended to the one buffer under the key \<^verbatim>\<open>team\<close>, leaves
  every other buffer as it was, is sent to the open members of the sender's own team, and
  is part of what any joined session gets for \<^verbatim>\<open>get-history\<close> on \<^verbatim>\<open>team\<close>. A chat message
  of any joined session, with or without a team, under any other channel name than
  \<^verbatim>\<open>team\<close> and \<^verbatim>\<open>global\<close> (the names inherited from \<^verbatim>\<open>Object.prototype\<close> aside) is appended
  under that name and sent to no one. In every reachable state a buffer holds only chat
  records whose channel field is the buffer's own key, and, under \<^verbatim>\<open>global\<close> alone, system
  records: \<^verbatim>\<open>[REKT]\<close> and \<^verbatim>\<open>[SMT]\<close> hold chat records sent with that channel name and never a
  system record.
\<close>

theorem C10_team_chat_routing:
  assumes "users s ws = Some u" and "joined u"
  shows "(teamCode u = Some tc \<and> tc \<noteq> [] \<longrightarrow>
           (let m = ChatRecord (username u) t ts (Some ''team'') now;
                r = onMessage now ts ws (ChatMessage t (Some ''team'')) s
            in history (fst r) ''team'' = survivors MAX_HISTORY (history s ''team'') @ [m]
               \<and> (\<forall>k. k \<noteq> ''team'' \<longrightarrow> history (fst r) k = history s k)
               \<and> snd r = map (\<lambda>c. (c, Relay m)) (filter (\<lambda>c. readyState s c = OPEN) (members s tc))
               \<and> (\<forall>w. isJoined s w \<longrightarrow>
                    snd (onMessage now1 ts1 w (GetHistory (Some ''team'')) (fst r))
                      = [(w, ChatHistory (survivors MAX_HISTORY (history s ''team'') @ [m]))])))
       \<and> (\<forall>ch. ch \<noteq> ''team'' \<and> ch \<noteq> ''global'' \<and> \<not> inherited ch \<longrightarrow>
             onMessage now ts ws (ChatMessage t (Some ch)) s
               = (pushHistory ch (ChatRecord (username u) t ts (Some ch) now) s, []))
       \<and> list_all (filed k) (history (run init evs) k)"
proof -
  let ?m = "ChatRecord (username u) t ts (Some ''team'') now"
  have p: "readProp (messageHistory s) (key (Some ''team'')) \<noteq> Inherited"
    by (rule readProp_own_or_missing) (simp add: key_def inherited_def)
  have r: "onMessage now ts ws (ChatMessage t (Some ''team'')) s
      = (pushHistory ''team'' ?m s,
         map (\<lambda>c. (c, Relay ?m)) (filter (\<lambda>c. readyState s c = OPEN) (members s tc)))"
    if "teamCode u = Some tc" and "tc \<noteq> []"
    using that by (simp add: onMessage_ChatMessage [OF assms p] key_def truthy_def)
  have g: "snd (onMessage now1 ts1 w (GetHistory (Some ''team'')) (pushHistory ''team'' ?m s))
      = [(w, ChatHistory (survivors MAX_HISTORY (history s ''team'') @ [?m]))]"
    if "isJoined s w" for w
    using that by (simp add: onMessage_GetHistory key_def history_pushHistory_survivors)
  have "recordsFiled (run init evs)"
    by (rule recordsFiled_run [OF recordsFiled_init])
  then have f: "list_all (filed k) (history (run init evs) k)"
    by (simp add: recordsFiled_def)
  have n: "onMessage now ts ws (ChatMessage t (Some ch)) s
      = (pushHistory ch (ChatRecord (username u) t ts (Some ch) now) s, [])"
    if "ch \<noteq> ''team''" and "ch \<noteq> ''global''" and "\<not> inherited ch" for ch
  proof -
    have "readProp (messageHistory s) (key (Some ch)) \<noteq> Inherited"
      using that(3) by (simp add: readProp_own_or_missing key_def)
    then show ?thesis
      using that(1,2) by (simp add: onMessage_ChatMessage [OF assms] key_def)
  qed
  have 1: "teamCode u = Some tc \<and> tc \<noteq> [] \<longrightarrow>
           (let m = ChatRecord (username u) t ts (Some ''team'') now;
                r = onMessage now ts ws (ChatMessage t (Some ''team'')) s
            in history (fst r) ''team'' = survivors MAX_HISTORY (history s ''team'') @ [m]
               \<and> (\<forall>k. k \<noteq> ''team'' \<longrightarrow> history (fst r) k = history s k)
               \<and> snd r = map (\<lambda>c. (c, Relay m)) (filter (\<lambda>c. readyState s c = OPEN) (members s tc))
               \<and> (\<forall>w. isJoined s w \<longrightarrow>
                    snd (onMessage now1 ts1 w (GetHistory (Some ''team'')) (fst r))
                      = [(w, ChatHistory (survivors MAX_HISTORY (history s ''team'') @ [m]))]))"
  proof
    assume a: "teamCode u = Some tc \<and> tc \<noteq> []"
    show "(let m = ChatRecord (username u) t ts (Some ''team'') now;
                r = onMessage now ts ws (ChatMessage t (Some ''team'')) s
            in history (fst r) ''team'' = survivors MAX_HISTORY (history s ''team'') @ [m]
               \<and> (\<forall>k. k \<noteq> ''team'' \<longrightarrow> history (fst r) k = history s k)
               \<and> snd r = map (\<lambda>c. (c, Relay m)) (filter (\<lambda>c. readyState s c = OPEN) (members s tc))
               \<and> (\<forall>w. isJoined s w \<longrightarrow>
                    snd (onMessage now1 ts1 w (GetHistory (Some ''team'')) (fst r))
                      = [(w, ChatHistory (survivors MAX_HISTORY (history s ''team'') @ [m]))]))"
      unfolding Let_def r [OF conjunct1 [OF a] conjunct2 [OF a]]
      using g by (simp add: history_pushHistory_survivors history_pushHistory_other)
  qed
  show ?thesis
    using 1 f n by blast
qed

text \<open>
  Bob of \<^verbatim>\<open>[SMT]\<close> posts on \<^verbatim>\<open>team\<close> after alice of \<^verbatim>\<open>[REKT]\<close>: only bob is sent the message,
  and alice reads both teams' lines in the history of \<^verbatim>\<open>team\<close>. Alice in \<open>exA\<close>, who has no
  team, posts under \<^verbatim>\<open>[SMT]\<close>: the record is stored and sent to no one.
\<close>

theorem C10_team_chat_routing_witness:
  "users exMixed 0 = Some \<lparr>username = Some ''alice'', teamCode = Some ''[REKT]'', joined = True\<rparr>
   \<and> users exMixed 1 = Some \<lparr>username = Some ''bob'', teamCode = Some ''[SMT]'', joined = True\<rparr>
   \<and> members exMixed ''[REKT]'' = [0] \<and> members exMixed ''[SMT]'' = [1]
   \<and> history exMixed ''team''
       = [ChatRecord (Some ''alice'') ''go rekt'' ''05:30:06'' (Some ''team'') 6000]
   \<and> snd (onMessage 7000 ''05:30:07'' 1 (ChatMessage ''go smt'' (Some ''team'')) exMixed)
       = [(1, Relay (ChatRecord (Some ''bob'') ''go smt'' ''05:30:07'' (Some ''team'') 7000))]
   \<and> history (fst (onMessage 7000 ''05:30:07'' 1 (ChatMessage ''go smt'' (Some ''team'')) exMixed)) ''[SMT]'' = []
   \<and> history (fst (onMessage 7000 ''05:30:07'' 1 (ChatMessage ''go smt'' (Some ''team'')) exMixed)) ''[REKT]'' = []
   \<and> snd (onMessage 8000 ''05:30:08'' 0 (GetHistory (Some ''team''))
            (fst (onMessage 7000 ''05:30:07'' 1 (ChatMessage ''go smt'' (Some ''team'')) exMixed)))
       = [(0, ChatHistory
            [ChatRecord (Some ''alice'') ''go rekt'' ''05:30:06'' (Some ''team'') 6000,
             ChatRecord (Some ''bob'') ''go smt'' ''05:30:07'' (Some ''team'') 7000])]
   \<and> users exA 0 = Some \<lparr>username = Some ''alice'', teamCode = None, joined = True\<rparr>
   \<and> \<not> inherited ''[SMT]''
   \<and> onMessage 3000 ''05:30:03'' 0 (ChatMessage ''hello'' (Some ''[SMT]'')) exA
       = (pushHistory ''[SMT]'' (ChatRecord (Some ''alice'') ''hello'' ''05:30:03'' (Some ''[SMT]'') 3000) exA, [])
   \<and> list_all (filed ''team'') (history exMixed ''team'')"
proof -
  have a: "users exMixed 0 = Some \<lparr>username = Some ''alice'', teamCode = Some ''[REKT]'', joined = True\<rparr>"
    and b: "users exMixed 1 = Some \<lparr>username = Some ''bob'', teamCode = Some ''[SMT]'', joined = True\<rparr>"
    and c: "members exMixed ''[REKT]'' = [0]" "members exMixed ''[SMT]'' = [1]"
    and d: "history exMixed ''team''
       = [ChatRecord (Some ''alice'') ''go rekt'' ''05:30:06'' (Some ''team'') 6000]"
    and e: "history exMixed ''[SMT]'' = []" "history exMixed ''[REKT]'' = []"
    and o: "readyState exMixed 1 = OPEN"
    by (simp_all add: exMixed_def members_def ex_defs)
  have u: "users exA 0 = Some \<lparr>username = Some ''alice'', teamCode = None, joined = True\<rparr>"
    by (simp add: exA_def ex_defs)
  have j: "joined \<lparr>username = Some nm, teamCode = x, joined = True\<rparr>" for nm x
    by simp
  have ni: "\<not> inherited ''[SMT]''"
    by (simp add: inherited_def)
  have i: "isJoined exMixed 0"
    using a by (simp add: isJoined_def)
  have "list_all (filed ''team'') (history exMixed ''team'')"
    using C10_team_chat_routing [OF b j, of "''[SMT]''" "''go smt''" "''05:30:07''" 7000
        8000 "''05:30:08''" "''team''"]
    unfolding exMixed_def by blast
  moreover note C10_team_chat_routing [OF b j, of "''[SMT]''" "''go smt''" "''05:30:07''" 7000
        8000 "''05:30:08''" "''team''" "[]"]
  moreover have "onMessage 3000 ''05:30:03'' 0 (ChatMessage ''hello'' (Some ''[SMT]'')) exA
       = (pushHistory ''[SMT]'' (ChatRecord (Some ''alice'') ''hello'' ''05:30:03'' (Some ''[SMT]'') 3000) exA, [])"
    using C10_team_chat_routing [OF u j, of "''a''" "''hello''" "''05:30:03''" 3000
        0 "''b''" "''team''" "[]"] ni
    by simp
  ultimately show ?thesis
    using a b c d e o i u ni
    by (simp add: Let_def survivors_def MAX_HISTORY_def)
qed

text \<open>
  The claim as stated (the buffers \<^verbatim>\<open>[REKT]\<close> and \<^verbatim>\<open>[SMT]\<close> receive only system messages)
  fails: bob, who has no team, posts with channel \<^verbatim>\<open>[REKT]\<close> and the buffer holds his chat
  record.
\<close>

theorem C10_team_buffer_counterexample:
  "history exPre ''[REKT]'' = [ChatRecord (Some ''bob'') ''plan'' ''05:30:04'' (Some ''[REKT]'') 4000]
   \<and> isChat (ChatRecord (Some ''bob'') ''plan'' ''05:30:04'' (Some ''[REKT]'') 4000)
   \<and> users exPre 1 = Some \<lparr>username = Some ''bob'', teamCode = None, joined = True\<rparr>"
  by (simp add: exPre_def ex_defs)

end
